theory Spec2Isabelle
  imports Main "HOL-Library.Sublist"
begin

section \<open>The permission matcher\<close>

text \<open>
  Permission and role identifiers are JavaScript strings, modelled as \<open>string\<close>.
  An object used as a dictionary is a map of its own properties; reading a property of
  such an object also finds what it inherits from \<open>Object.prototype\<close> (see
  \<open>getProperty\<close> below).

  \<open>split_str c s\<close> is \<open>s.split(c)\<close> for a one-character separator: it always
  yields at least one segment, and a string without the separator is its own single segment.
\<close>

fun split_str :: "char \<Rightarrow> string \<Rightarrow> string list" where
  "split_str c [] = [[]]"
| "split_str c (x # xs) =
     (if x = c then [] # split_str c xs
      else (case split_str c xs of
              [] \<Rightarrow> [[x]]
            | seg # segs \<Rightarrow> (x # seg) # segs))"

text \<open>
  \<open>checkPermission\<close>: global wildcard, exact match, then the resource wildcard built from
  the first segment of \<open>requiredPermission.split(':')\<close>. The array destructuring
  \<open>const [resource] = ...\<close> reads the first segment; a non-empty string is truthy.
\<close>

definition checkPermission :: "string list \<Rightarrow> string \<Rightarrow> bool" where
  "checkPermission heldPermissions requiredPermission =
     (if ''*'' \<in> set heldPermissions then True
      else if requiredPermission \<in> set heldPermissions then True
      else (case split_str CHR '':'' requiredPermission of
              [] \<Rightarrow> False
            | resource # _ \<Rightarrow>
                if resource \<noteq> [] \<and> (resource @ '':*'') \<in> set heldPermissions then True
                else False))"

text \<open>The part of a string before its first \<open>:\<close> (the whole string when it has none).\<close>

definition resource_prefix :: "string \<Rightarrow> string" where
  "resource_prefix s = takeWhile (\<lambda>c. c \<noteq> CHR '':'') s"

section \<open>The action guard and the dispatcher\<close>

text \<open>
  A thrown JavaScript value is either an \<open>Error\<close> object with its message or some other
  value. Actions and handlers are effectful callbacks: they are modelled as functions on an
  explicit world \<open>'s\<close>, so that a callback which is not invoked leaves the world as it was.
  A rejected promise is \<open>Inl\<close> of the thrown value, a fulfilled one \<open>Inr\<close> of the result.
\<close>

datatype 'x thrown = Error string | Thrown 'x

definition accessDeniedMessage :: "string \<Rightarrow> string" where
  "accessDeniedMessage required =
     ''[RBAC Shield] Access Denied: Missing permission '' @ [CHR 0x27] @ required @ [CHR 0x27]"

definition guard ::
  "string list \<Rightarrow> string \<Rightarrow> ('args \<Rightarrow> 's \<Rightarrow> ('x thrown + 'r) \<times> 's)
     \<Rightarrow> 'args \<Rightarrow> 's \<Rightarrow> ('x thrown + 'r) \<times> 's" where
  "guard userPermissions required action args s =
     (let hasAccess = checkPermission userPermissions required in
      if \<not> hasAccess then (Inl (Error (accessDeniedMessage required)), s)
      else action args s)"








section \<open>The tenant store\<close>

text \<open>
  The canonical per-tenant record built by \<open>processTenants\<close>: held roles, held
  permissions, and the lookup object \<open>map\<close> derived from the permissions.
\<close>

record tenant =
  roles :: "string list"
  permissions :: "string list"
  map' :: "string \<rightharpoonup> bool"

record RBACState =
  activeTenantId :: "string option"
  tenants :: "string \<rightharpoonup> tenant"
  isLoading :: bool

text \<open>
  The input of \<open>setAuth\<close>. Its declared type is \<open>TenantAuthInput[] | string[]\<close>; at run
  time any value can arrive. \<open>Strings\<close> is an array of strings, \<open>Tenants\<close> an array whose
  elements are not strings (the empty array is the same value under both constructors), and
  \<open>NotArray\<close> any value that is no array and has neither a \<open>reduce\<close> method nor a
  \<open>length\<close> (\<open>null\<close>, \<open>undefined\<close>, a plain object). An element of an object
  array is an object, with \<open>roles\<close> and \<open>permissions\<close> present or missing, or
  \<open>Nullish\<close> for \<open>null\<close> and \<open>undefined\<close>.
\<close>

record TenantAuthInput =
  tenantId :: string
  roles_in :: "string list option"
  permissions_in :: "string list option"

datatype auth_elem = Entry TenantAuthInput | Nullish

datatype auth_input = Strings "string list" | Tenants "auth_elem list" | NotArray

datatype js_error = TypeError

datatype console = ConsoleError string | ConsoleDebug string

text \<open>
  The reducer of \<open>processTenants\<close>. Reading a property of \<open>null\<close> or \<open>undefined\<close>, and
  calling \<open>reduce\<close> on a missing \<open>permissions\<close>, throws a \<open>TypeError\<close>; \<open>curr.roles || []\<close>
  replaces missing roles by the empty array.
\<close>

definition permissionMap :: "string list \<Rightarrow> (string \<rightharpoonup> bool)" where
  "permissionMap ps = foldl (\<lambda>pMap p. pMap(p \<mapsto> True)) Map.empty ps"

definition tenantRecord :: "string list option \<Rightarrow> string list \<Rightarrow> tenant" where
  "tenantRecord rs ps =
     \<lparr>roles = (case rs of Some r \<Rightarrow> r | None \<Rightarrow> []),
      permissions = ps,
      map' = permissionMap ps\<rparr>"

fun reduce_tenants ::
  "(string \<rightharpoonup> tenant) \<Rightarrow> auth_elem list \<Rightarrow> js_error + (string \<rightharpoonup> tenant)" where
  "reduce_tenants acc [] = Inr acc"
| "reduce_tenants acc (Nullish # rest) = Inl TypeError"
| "reduce_tenants acc (Entry entry # rest) =
     (case permissions_in entry of
        None \<Rightarrow> Inl TypeError
      | Some ps \<Rightarrow>
          reduce_tenants (acc(tenantId entry \<mapsto> tenantRecord (roles_in entry) ps)) rest)"

definition processTenants :: "auth_input \<Rightarrow> js_error + (string \<rightharpoonup> tenant)" where
  "processTenants authInput =
     (case authInput of
        Strings ps \<Rightarrow>
          reduce_tenants Map.empty
            [Entry \<lparr>tenantId = ''default'', roles_in = None, permissions_in = Some ps\<rparr>]
      | Tenants es \<Rightarrow>
          if es = [] then
            reduce_tenants Map.empty
              [Entry \<lparr>tenantId = ''default'', roles_in = None, permissions_in = Some []\<rparr>]
          else reduce_tenants Map.empty es
      | NotArray \<Rightarrow> Inl TypeError)"

text \<open>Truthiness of a \<open>string | null\<close> value: \<open>null\<close> and the empty string are falsy.\<close>

definition truthy :: "string option \<Rightarrow> bool" where
  "truthy v = (case v of None \<Rightarrow> False | Some s \<Rightarrow> s \<noteq> [])"

definition emptyState :: RBACState where
  "emptyState = \<lparr>activeTenantId = None, tenants = Map.empty, isLoading = True\<rparr>"

text \<open>
  The initial state of \<open>RBACProvider\<close>. The initialiser is not inside a \<open>try\<close>: an
  error of \<open>processTenants\<close> escapes.
\<close>

definition initialState :: "auth_input option \<Rightarrow> js_error + RBACState" where
  "initialState initialData =
     (case initialData of
        None \<Rightarrow> Inr emptyState
      | Some NotArray \<Rightarrow> Inr emptyState
      | Some (Strings ps) \<Rightarrow>
          if ps = [] then Inr emptyState
          else (case processTenants (Strings ps) of
                  Inl e \<Rightarrow> Inl e
                | Inr ts \<Rightarrow>
                    Inr \<lparr>activeTenantId = (if ts ''default'' \<noteq> None then Some ''default'' else None),
                         tenants = ts, isLoading = False\<rparr>)
      | Some (Tenants es) \<Rightarrow>
          if es = [] then Inr emptyState
          else (case processTenants (Tenants es) of
                  Inl e \<Rightarrow> Inl e
                | Inr ts \<Rightarrow>
                    Inr \<lparr>activeTenantId = (if ts ''default'' \<noteq> None then Some ''default'' else None),
                         tenants = ts, isLoading = False\<rparr>))"

definition log :: "bool \<Rightarrow> string \<Rightarrow> console list" where
  "log debug msg = (if debug then [ConsoleDebug (''[RBAC Shield] '' @ msg)] else [])"

text \<open>
  \<open>setAuth\<close> is created by \<open>useCallback\<close> with the dependency list \<open>[log]\<close>: the
  variable \<open>state\<close> it reads is the state of the render that created the callback, while
  \<open>prev\<close> is the state the queued update is applied to. Both are arguments here. The
  result is the next state and what was written to the console; the function is total, as
  every statement of the source lies inside the \<open>try\<close>. The name \<open>default\<close> is not
  one that \<open>Object.prototype\<close> provides, so \<open>tenants["default"]\<close> is truthy exactly
  when the tenants have that key.
\<close>

definition setAuth ::
  "bool \<Rightarrow> RBACState \<Rightarrow> auth_input \<Rightarrow> RBACState \<Rightarrow> RBACState \<times> console list" where
  "setAuth debug state authInput prev =
     (case processTenants authInput of
        Inr ts \<Rightarrow>
          (let shouldAutoSwitch = (ts ''default'' \<noteq> None \<and> \<not> truthy (activeTenantId state)) in
           (prev\<lparr>tenants := ts, isLoading := False,
                 activeTenantId :=
                   (if shouldAutoSwitch then Some ''default'' else activeTenantId prev)\<rparr>,
            (if shouldAutoSwitch then log debug ''Auto-switched to default tenant'' else [])
              @ log debug ''Permissions loaded for tenants:''))
      | Inl error \<Rightarrow>
          (prev\<lparr>isLoading := False\<rparr>, [ConsoleError ''[RBAC Shield] Error setting auth:'']))"

definition switchTenant :: "bool \<Rightarrow> string \<Rightarrow> RBACState \<Rightarrow> RBACState \<times> console list" where
  "switchTenant debug tid prev =
     (prev\<lparr>activeTenantId := Some tid\<rparr>, log debug ''Switched to tenant:'')"

definition reset :: "bool \<Rightarrow> RBACState \<times> console list" where
  "reset debug = (emptyState, log debug ''State reset'')"

text \<open>
  A provider in use: the three store operations applied in sequence. While the \<open>debug\<close>
  property does not change, \<open>log\<close> and therefore the memoised \<open>setAuth\<close> stay those of
  the first render, whose \<open>state\<close> is the provider's initial state.
\<close>

datatype store_op = SetAuth auth_input | SwitchTenant string | Reset

fun apply_op :: "bool \<Rightarrow> RBACState \<Rightarrow> store_op \<Rightarrow> RBACState \<Rightarrow> RBACState" where
  "apply_op debug state (SetAuth authInput) prev = fst (setAuth debug state authInput prev)"
| "apply_op debug state (SwitchTenant tid) prev = fst (switchTenant debug tid prev)"
| "apply_op debug state Reset prev = fst (reset debug)"

fun run_ops :: "bool \<Rightarrow> RBACState \<Rightarrow> store_op list \<Rightarrow> RBACState \<Rightarrow> RBACState" where
  "run_ops debug state [] cur = cur"
| "run_ops debug state (x # xs) cur = run_ops debug state xs (apply_op debug state x cur)"

definition provider_run :: "bool \<Rightarrow> RBACState \<Rightarrow> store_op list \<Rightarrow> RBACState" where
  "provider_run debug init ops = run_ops debug init ops init"

section \<open>The access combinator\<close>

record requirements =
  roles_req :: "string list option"
  permissions_req :: "string list option"

text \<open>\<open>xs && xs.length > 0\<close>, and the truthiness of \<open>xs?.length\<close>.\<close>

definition nonEmpty :: "string list option \<Rightarrow> bool" where
  "nonEmpty xs = (case xs of None \<Rightarrow> False | Some ys \<Rightarrow> ys \<noteq> [])"

definition roleMatch :: "tenant \<Rightarrow> requirements \<Rightarrow> bool" where
  "roleMatch tenant reqs =
     (case roles_req reqs of
        None \<Rightarrow> True
      | Some rs \<Rightarrow>
          if rs \<noteq> [] then
            (if ''*'' \<in> set (roles tenant) then True
             else list_ex (\<lambda>r. r \<in> set (roles tenant)) rs)
          else True)"

definition permMatch :: "tenant \<Rightarrow> requirements \<Rightarrow> bool \<Rightarrow> bool" where
  "permMatch tenant reqs requireAll =
     (case permissions_req reqs of
        None \<Rightarrow> True
      | Some ps \<Rightarrow>
          if ps \<noteq> [] then
            (if ''*'' \<in> set (permissions tenant) then True
             else if requireAll then list_all (checkPermission (permissions tenant)) ps
             else list_ex (checkPermission (permissions tenant)) ps)
          else True)"

definition checkAccess :: "tenant \<Rightarrow> requirements \<Rightarrow> bool \<Rightarrow> bool" where
  "checkAccess tenant reqs requireAll =
     (let rm = roleMatch tenant reqs;
          pm = permMatch tenant reqs requireAll
      in if nonEmpty (roles_req reqs) \<and> nonEmpty (permissions_req reqs) then rm \<and> pm
         else if nonEmpty (roles_req reqs) then rm
         else if nonEmpty (permissions_req reqs) then pm
         else True)"

text \<open>
  The two satisfaction notions in the words of the specification (section 4.2), to compare
  the combinator with: an absent or empty request is vacuously satisfied, a wildcard holder
  is satisfied, roles are requested disjunctively, permissions conjunctively under
  \<open>requireAll\<close> and disjunctively otherwise.
\<close>

definition role_satisfaction :: "tenant \<Rightarrow> string list option \<Rightarrow> bool" where
  "role_satisfaction tenant requested =
     (case requested of
        None \<Rightarrow> True
      | Some rs \<Rightarrow>
          rs = [] \<or> ''*'' \<in> set (roles tenant) \<or> (\<exists>r\<in>set rs. r \<in> set (roles tenant)))"

definition permission_satisfaction :: "tenant \<Rightarrow> string list option \<Rightarrow> bool \<Rightarrow> bool" where
  "permission_satisfaction tenant requested requireAll =
     (case requested of
        None \<Rightarrow> True
      | Some ps \<Rightarrow>
          ps = [] \<or> ''*'' \<in> set (permissions tenant) \<or>
          (if requireAll then (\<forall>p\<in>set ps. checkPermission (permissions tenant) p)
           else (\<exists>p\<in>set ps. checkPermission (permissions tenant) p)))"

section \<open>The reactive queries\<close>

text \<open>
  \<open>state.tenants\<close> and \<open>tenant.map\<close> are plain objects, built by spreading into
  \<open>{}\<close>: \<open>obj[key]\<close> yields the own property when there is one and otherwise what
  \<open>Object.prototype\<close> provides under that name, a function (or, for \<open>__proto__\<close>, the
  prototype object itself). Such an inherited value is truthy and has no \<open>roles\<close>,
  \<open>permissions\<close> or \<open>map\<close> property.
\<close>

definition objectPrototypeNames :: "string list" where
  "objectPrototypeNames =
     [''constructor'', ''__defineGetter__'', ''__defineSetter__'', ''hasOwnProperty'',
      ''__lookupGetter__'', ''__lookupSetter__'', ''isPrototypeOf'', ''propertyIsEnumerable'',
      ''toString'', ''valueOf'', ''__proto__'', ''toLocaleString'']"

datatype 'a property = Own 'a | Inherited | Absent

definition getProperty :: "(string \<rightharpoonup> 'a) \<Rightarrow> string \<Rightarrow> 'a property" where
  "getProperty obj key =
     (case obj key of
        Some v \<Rightarrow> Own v
      | None \<Rightarrow> if key \<in> set objectPrototypeNames then Inherited else Absent)"

text \<open>Truthiness of \<open>tenant.map[p]\<close>: an own entry is a boolean, an inherited value is truthy.\<close>

definition truthyEntry :: "bool property \<Rightarrow> bool" where
  "truthyEntry v = (case v of Own b \<Rightarrow> b | Inherited \<Rightarrow> True | Absent \<Rightarrow> False)"

text \<open>
  \<open>checkAccess\<close> called on an inherited value instead of a tenant record: the first
  non-empty requirement makes it read \<open>includes\<close> of the missing \<open>roles\<close> or
  \<open>permissions\<close>, which throws; with no requirement it touches neither and returns true.
\<close>

definition checkAccessForeign :: "requirements \<Rightarrow> js_error + bool" where
  "checkAccessForeign reqs =
     (if nonEmpty (roles_req reqs) then Inl TypeError
      else if nonEmpty (permissions_req reqs) then Inl TypeError
      else Inr True)"

text \<open>
  Every hook reads the provider's state and its own \<open>mounted\<close> flag, and its computation
  runs during rendering, where an error escapes: the result is \<open>Inl\<close> of the error or
  \<open>Inr\<close> of the value. \<open>activeTenant\<close> is what the shared test
  \<open>!state.activeTenantId || !state.tenants[state.activeTenantId]\<close> looks at: the test
  holds exactly when it is \<open>Absent\<close>.
\<close>

definition activeTenant :: "RBACState \<Rightarrow> tenant property" where
  "activeTenant state =
     (case activeTenantId state of
        None \<Rightarrow> Absent
      | Some tid \<Rightarrow> if tid = [] then Absent else getProperty (tenants state) tid)"

definition useHasRole :: "bool \<Rightarrow> RBACState \<Rightarrow> string \<Rightarrow> js_error + bool" where
  "useHasRole mounted state role =
     (if \<not> mounted \<or> isLoading state then Inr False
      else (case activeTenant state of
              Absent \<Rightarrow> Inr False
            | Own tenant \<Rightarrow>
                Inr (checkAccess tenant \<lparr>roles_req = Some [role], permissions_req = None\<rparr> False)
            | Inherited \<Rightarrow>
                checkAccessForeign \<lparr>roles_req = Some [role], permissions_req = None\<rparr>))"

definition useHasPermission :: "bool \<Rightarrow> RBACState \<Rightarrow> string \<Rightarrow> js_error + bool" where
  "useHasPermission mounted state permission =
     (if \<not> mounted \<or> isLoading state then Inr False
      else (case activeTenant state of
              Absent \<Rightarrow> Inr False
            | Own tenant \<Rightarrow>
                Inr (checkAccess tenant
                       \<lparr>roles_req = None, permissions_req = Some [permission]\<rparr> False)
            | Inherited \<Rightarrow>
                checkAccessForeign \<lparr>roles_req = None, permissions_req = Some [permission]\<rparr>))"

text \<open>
  In the bulk checks an inherited value in place of the tenant has no \<open>map\<close>, and
  \<open>tenant?.map["*"]\<close> reads a property of \<open>undefined\<close>.
\<close>

definition useHasAnyPermission :: "bool \<Rightarrow> RBACState \<Rightarrow> string list \<Rightarrow> js_error + bool" where
  "useHasAnyPermission mounted state ps =
     (if \<not> mounted \<or> isLoading state then Inr False
      else (case activeTenant state of
              Absent \<Rightarrow> Inr False
            | Own tenant \<Rightarrow>
                if truthyEntry (getProperty (map' tenant) ''*'') then Inr True
                else Inr (list_ex (\<lambda>p. truthyEntry (getProperty (map' tenant) p)) ps)
            | Inherited \<Rightarrow> Inl TypeError))"

definition useHasAllPermissions :: "bool \<Rightarrow> RBACState \<Rightarrow> string list \<Rightarrow> js_error + bool" where
  "useHasAllPermissions mounted state ps =
     (if \<not> mounted \<or> isLoading state then Inr False
      else (case activeTenant state of
              Absent \<Rightarrow> Inr False
            | Own tenant \<Rightarrow>
                if truthyEntry (getProperty (map' tenant) ''*'') then Inr True
                else Inr (list_all (\<lambda>p. truthyEntry (getProperty (map' tenant) p)) ps)
            | Inherited \<Rightarrow> Inl TypeError))"

definition usePermissions :: "bool \<Rightarrow> RBACState \<Rightarrow> string list" where
  "usePermissions mounted state =
     (if \<not> mounted then []
      else (case activeTenant state of
              Absent \<Rightarrow> []
            | Own tenant \<Rightarrow> permissions tenant
            | Inherited \<Rightarrow> []))"

definition useAccess :: "bool \<Rightarrow> RBACState \<Rightarrow> requirements \<Rightarrow> js_error + bool" where
  "useAccess mounted state reqs =
     (if \<not> mounted \<or> isLoading state \<or> activeTenant state = Absent then
        (if \<not> nonEmpty (roles_req reqs) \<and> \<not> nonEmpty (permissions_req reqs) then Inr True
         else Inr False)
      else (case activeTenant state of
              Absent \<Rightarrow> Inr False
            | Own tenant \<Rightarrow> Inr (checkAccess tenant reqs False)
            | Inherited \<Rightarrow> checkAccessForeign reqs))"

text \<open>
  The two states, besides loading, in which the queries are specified to fail closed: no
  tenant is active (the id is \<open>null\<close> or empty), or the active id is no key of the
  tenants.
\<close>

definition noActiveTenant :: "RBACState \<Rightarrow> bool" where
  "noActiveTenant state = (\<not> truthy (activeTenantId state))"

definition activeTenantAbsent :: "RBACState \<Rightarrow> bool" where
  "activeTenantAbsent state =
     (case activeTenantId state of None \<Rightarrow> False | Some tid \<Rightarrow> tenants state tid = None)"


section \<open>Properties of the permission matcher\<close>

lemma split_str_nonempty: "split_str c s \<noteq> []"
  by (induction s) (auto split: list.splits)

lemma hd_split_str: "hd (split_str c s) = takeWhile (\<lambda>x. x \<noteq> c) s"
  by (induction s) (auto split: list.splits simp: split_str_nonempty)

lemma split_str_first:
  "\<exists>segs. split_str CHR '':'' s = resource_prefix s # segs"
proof (cases "split_str CHR '':'' s")
  case Nil
  then show ?thesis by (simp add: split_str_nonempty)
next
  case (Cons seg segs)
  then have "seg = resource_prefix s"
    using hd_split_str [of "CHR '':''" s] by (simp add: resource_prefix_def)
  with Cons show ?thesis by simp
qed

lemma resource_prefix_no_colon: "CHR '':'' \<notin> set s \<Longrightarrow> resource_prefix s = s"
  by (auto simp: resource_prefix_def)

lemma checkPermission_iff:
  "checkPermission held required \<longleftrightarrow>
     ''*'' \<in> set held \<or> required \<in> set held \<or>
     (resource_prefix required \<noteq> [] \<and> resource_prefix required @ '':*'' \<in> set held)"
proof -
  obtain segs where "split_str CHR '':'' required = resource_prefix required # segs"
    using split_str_first by blast
  then show ?thesis by (simp add: checkPermission_def)
qed

text \<open>
  C1 (as amended). \<open>checkPermission\<close> returns true iff the held list contains \<open>*\<close>, or
  the required string verbatim, or the resource prefix of the required string (the part
  before the first \<open>:\<close>) is non-empty and the held list contains \<open><resource>:*\<close>. For a
  required string without any \<open>:\<close> the resource is the whole required string, so the
  resource-wildcard step matches exactly when the string is non-empty and the held list
  contains \<open><required>:*\<close>.
\<close>

theorem checkPermission_spec:
  "(checkPermission held required \<longleftrightarrow>
      ''*'' \<in> set held \<or> required \<in> set held \<or>
      (resource_prefix required \<noteq> [] \<and> resource_prefix required @ '':*'' \<in> set held))
   \<and> (CHR '':'' \<notin> set required \<longrightarrow>
        (checkPermission held required \<longleftrightarrow>
           ''*'' \<in> set held \<or> required \<in> set held \<or>
           (required \<noteq> [] \<and> required @ '':*'' \<in> set held)))"
  using checkPermission_iff [of held required] resource_prefix_no_colon [of required]
  by auto

theorem checkPermission_spec_witness:
  "CHR '':'' \<notin> set ''billing''
   \<and> checkPermission [''billing:*''] ''billing''
   \<and> checkPermission [''r:*''] ''r:a''
   \<and> \<not> checkPermission [''q:*''] ''r:a''
   \<and> \<not> checkPermission [] ''r:a''"
  using checkPermission_spec [of "[''billing:*'']" "''billing''"]
    checkPermission_spec [of "[''r:*'']" "''r:a''"]
    checkPermission_spec [of "[''q:*'']" "''r:a''"]
    checkPermission_spec [of "[]" "''r:a''"]
  by (simp add: resource_prefix_def)

text \<open>
  C1 (as stated) fails: \<open>admin\<close> contains no \<open>:\<close>, the held list has neither \<open>*\<close> nor
  \<open>admin\<close> itself, and still the resource-wildcard step matches.
\<close>

theorem checkPermission_no_colon_counterexample:
  "CHR '':'' \<notin> set ''admin''
   \<and> ''*'' \<notin> set [''admin:*'']
   \<and> ''admin'' \<notin> set [''admin:*'']
   \<and> checkPermission [''admin:*''] ''admin''"
  by (simp add: checkPermission_def)

section \<open>Properties of the access combinator\<close>

lemma checkPermission_star: "''*'' \<in> set held \<Longrightarrow> checkPermission held p"
  by (simp add: checkPermission_def)

lemma roleMatch_nonempty:
  "roles_req reqs = Some rs \<Longrightarrow> rs \<noteq> [] \<Longrightarrow>
     roleMatch tenant reqs \<longleftrightarrow> ''*'' \<in> set (roles tenant) \<or> (\<exists>r\<in>set rs. r \<in> set (roles tenant))"
  by (simp add: roleMatch_def list_ex_iff)

lemma permMatch_all:
  "permissions_req reqs = Some ps \<Longrightarrow> ps \<noteq> [] \<Longrightarrow>
     permMatch tenant reqs True \<longleftrightarrow> (\<forall>p\<in>set ps. checkPermission (permissions tenant) p)"
  by (auto simp: permMatch_def list_all_iff checkPermission_star)

lemma permMatch_any:
  "permissions_req reqs = Some ps \<Longrightarrow> ps \<noteq> [] \<Longrightarrow>
     permMatch tenant reqs False \<longleftrightarrow> (\<exists>p\<in>set ps. checkPermission (permissions tenant) p)"
proof (cases "''*'' \<in> set (permissions tenant)")
  case True
  assume ps: "permissions_req reqs = Some ps" "ps \<noteq> []"
  then obtain p where "p \<in> set ps" by (cases ps) auto
  with True ps show ?thesis
    by (auto simp: permMatch_def checkPermission_star)
next
  case False
  assume "permissions_req reqs = Some ps" "ps \<noteq> []"
  with False show ?thesis by (simp add: permMatch_def list_ex_iff)
qed

lemma roleMatch_satisfaction: "roleMatch tenant reqs = role_satisfaction tenant (roles_req reqs)"
  by (auto simp: roleMatch_def role_satisfaction_def list_ex_iff split: option.splits)

lemma permMatch_satisfaction:
  "permMatch tenant reqs requireAll = permission_satisfaction tenant (permissions_req reqs) requireAll"
  by (auto simp: permMatch_def permission_satisfaction_def list_ex_iff list_all_iff
      split: option.splits)

text \<open>
  C2. \<open>checkAccess\<close> combines the two categories: with both requirements non-empty the
  result is role satisfaction and permission satisfaction together, whatever \<open>requireAll\<close>
  is; with one non-empty requirement it is that category's satisfaction; with none it is
  true.
\<close>

theorem checkAccess_combination:
  "(nonEmpty (roles_req reqs) \<and> nonEmpty (permissions_req reqs) \<longrightarrow>
      checkAccess tenant reqs requireAll =
        (role_satisfaction tenant (roles_req reqs)
         \<and> permission_satisfaction tenant (permissions_req reqs) requireAll))
   \<and> (nonEmpty (roles_req reqs) \<and> \<not> nonEmpty (permissions_req reqs) \<longrightarrow>
        checkAccess tenant reqs requireAll = role_satisfaction tenant (roles_req reqs))
   \<and> (\<not> nonEmpty (roles_req reqs) \<and> nonEmpty (permissions_req reqs) \<longrightarrow>
        checkAccess tenant reqs requireAll =
          permission_satisfaction tenant (permissions_req reqs) requireAll)
   \<and> (\<not> nonEmpty (roles_req reqs) \<and> \<not> nonEmpty (permissions_req reqs) \<longrightarrow>
        checkAccess tenant reqs requireAll)"
  by (simp add: checkAccess_def Let_def roleMatch_satisfaction permMatch_satisfaction)

theorem checkAccess_combination_witness:
  "nonEmpty (Some [''admin'']) \<and> nonEmpty (Some [''b:view''])
   \<and> role_satisfaction \<lparr>roles = [''admin''], permissions = [''a:view''], map' = permissionMap [''a:view'']\<rparr>
        (Some [''admin''])
   \<and> \<not> checkAccess \<lparr>roles = [''admin''], permissions = [''a:view''], map' = permissionMap [''a:view'']\<rparr>
        \<lparr>roles_req = Some [''admin''], permissions_req = Some [''b:view'']\<rparr> False
   \<and> \<not> checkAccess \<lparr>roles = [''admin''], permissions = [''a:view''], map' = permissionMap [''a:view'']\<rparr>
        \<lparr>roles_req = Some [''admin''], permissions_req = Some [''b:view'']\<rparr> True
   \<and> checkAccess \<lparr>roles = [''admin''], permissions = [''a:view''], map' = permissionMap [''a:view'']\<rparr>
        \<lparr>roles_req = Some [''admin''], permissions_req = Some []\<rparr> False
   \<and> \<not> checkAccess \<lparr>roles = [''admin''], permissions = [''a:view''], map' = permissionMap [''a:view'']\<rparr>
        \<lparr>roles_req = None, permissions_req = Some [''b:view'']\<rparr> False
   \<and> checkAccess \<lparr>roles = [''admin''], permissions = [''a:view''], map' = permissionMap [''a:view'']\<rparr>
        \<lparr>roles_req = None, permissions_req = None\<rparr> False"
  using
    checkAccess_combination [of "\<lparr>roles_req = Some [''admin''], permissions_req = Some [''b:view'']\<rparr>"
      "\<lparr>roles = [''admin''], permissions = [''a:view''], map' = permissionMap [''a:view'']\<rparr>" False]
    checkAccess_combination [of "\<lparr>roles_req = Some [''admin''], permissions_req = Some [''b:view'']\<rparr>"
      "\<lparr>roles = [''admin''], permissions = [''a:view''], map' = permissionMap [''a:view'']\<rparr>" True]
    checkAccess_combination [of "\<lparr>roles_req = Some [''admin''], permissions_req = Some []\<rparr>"
      "\<lparr>roles = [''admin''], permissions = [''a:view''], map' = permissionMap [''a:view'']\<rparr>" False]
    checkAccess_combination [of "\<lparr>roles_req = None, permissions_req = Some [''b:view'']\<rparr>"
      "\<lparr>roles = [''admin''], permissions = [''a:view''], map' = permissionMap [''a:view'']\<rparr>" False]
    checkAccess_combination [of "\<lparr>roles_req = None, permissions_req = None\<rparr>"
      "\<lparr>roles = [''admin''], permissions = [''a:view''], map' = permissionMap [''a:view'']\<rparr>" False]
  by (simp add: nonEmpty_def role_satisfaction_def permission_satisfaction_def
      checkPermission_def)

text \<open>
  C3. For non-empty requirement lists, role satisfaction is a disjunction over the requested
  roles (or the role \<open>*\<close>) and does not depend on \<open>requireAll\<close>; permission
  satisfaction under \<open>requireAll\<close> holds iff every requested permission passes
  \<open>checkPermission\<close> against the tenant's permissions, and otherwise iff some does.
\<close>

theorem roles_any_permissions_requireAll:
  "rs \<noteq> [] \<and> ps \<noteq> [] \<and> roles_req reqs = Some rs \<and> permissions_req reqs = Some ps \<longrightarrow>
     (roleMatch tenant reqs \<longleftrightarrow>
        ''*'' \<in> set (roles tenant) \<or> (\<exists>r\<in>set rs. r \<in> set (roles tenant)))
     \<and> (permMatch tenant reqs True \<longleftrightarrow>
          (\<forall>p\<in>set ps. checkPermission (permissions tenant) p))
     \<and> (permMatch tenant reqs False \<longleftrightarrow>
          (\<exists>p\<in>set ps. checkPermission (permissions tenant) p))
     \<and> (checkAccess tenant \<lparr>roles_req = Some rs, permissions_req = None\<rparr> requireAll \<longleftrightarrow>
          ''*'' \<in> set (roles tenant) \<or> (\<exists>r\<in>set rs. r \<in> set (roles tenant)))
     \<and> (checkAccess tenant \<lparr>roles_req = None, permissions_req = Some ps\<rparr> True \<longleftrightarrow>
          (\<forall>p\<in>set ps. checkPermission (permissions tenant) p))
     \<and> (checkAccess tenant \<lparr>roles_req = None, permissions_req = Some ps\<rparr> False \<longleftrightarrow>
          (\<exists>p\<in>set ps. checkPermission (permissions tenant) p))"
proof (intro impI, elim conjE)
  assume rs: "rs \<noteq> []" and ps: "ps \<noteq> []"
    and rr: "roles_req reqs = Some rs" and pr: "permissions_req reqs = Some ps"
  let ?only_roles = "\<lparr>roles_req = Some rs, permissions_req = None\<rparr>"
  let ?only_perms = "\<lparr>roles_req = None, permissions_req = Some ps\<rparr>"
  have r1: "roleMatch tenant reqs \<longleftrightarrow>
      ''*'' \<in> set (roles tenant) \<or> (\<exists>r\<in>set rs. r \<in> set (roles tenant))"
    using roleMatch_nonempty [OF rr rs] .
  have p1: "permMatch tenant reqs True \<longleftrightarrow>
      (\<forall>p\<in>set ps. checkPermission (permissions tenant) p)"
    using permMatch_all [OF pr ps] .
  have p2: "permMatch tenant reqs False \<longleftrightarrow>
      (\<exists>p\<in>set ps. checkPermission (permissions tenant) p)"
    using permMatch_any [OF pr ps] .
  have "checkAccess tenant ?only_roles requireAll = roleMatch tenant ?only_roles"
    using rs by (simp add: checkAccess_def nonEmpty_def)
  then have c1: "checkAccess tenant ?only_roles requireAll \<longleftrightarrow>
      ''*'' \<in> set (roles tenant) \<or> (\<exists>r\<in>set rs. r \<in> set (roles tenant))"
    using roleMatch_nonempty [of ?only_roles rs tenant] rs by simp
  have "\<And>b. checkAccess tenant ?only_perms b = permMatch tenant ?only_perms b"
    using ps by (simp add: checkAccess_def nonEmpty_def)
  then have c2: "checkAccess tenant ?only_perms True \<longleftrightarrow>
      (\<forall>p\<in>set ps. checkPermission (permissions tenant) p)"
    and c3: "checkAccess tenant ?only_perms False \<longleftrightarrow>
      (\<exists>p\<in>set ps. checkPermission (permissions tenant) p)"
    using permMatch_all [of ?only_perms ps tenant] permMatch_any [of ?only_perms ps tenant] ps
    by simp_all
  from r1 p1 p2 c1 c2 c3 show
    "(roleMatch tenant reqs \<longleftrightarrow>
        ''*'' \<in> set (roles tenant) \<or> (\<exists>r\<in>set rs. r \<in> set (roles tenant)))
     \<and> (permMatch tenant reqs True \<longleftrightarrow>
          (\<forall>p\<in>set ps. checkPermission (permissions tenant) p))
     \<and> (permMatch tenant reqs False \<longleftrightarrow>
          (\<exists>p\<in>set ps. checkPermission (permissions tenant) p))
     \<and> (checkAccess tenant ?only_roles requireAll \<longleftrightarrow>
          ''*'' \<in> set (roles tenant) \<or> (\<exists>r\<in>set rs. r \<in> set (roles tenant)))
     \<and> (checkAccess tenant ?only_perms True \<longleftrightarrow>
          (\<forall>p\<in>set ps. checkPermission (permissions tenant) p))
     \<and> (checkAccess tenant ?only_perms False \<longleftrightarrow>
          (\<exists>p\<in>set ps. checkPermission (permissions tenant) p))"
    by blast
qed

theorem roles_any_permissions_requireAll_witness:
  "[''a:view'', ''a:edit''] \<noteq> [] \<and> [''admin'', ''manager''] \<noteq> []
   \<and> roleMatch \<lparr>roles = [''manager''], permissions = [''a:view''], map' = permissionMap [''a:view'']\<rparr>
        \<lparr>roles_req = Some [''admin'', ''manager''], permissions_req = Some [''a:view'', ''a:edit'']\<rparr>
   \<and> \<not> checkAccess \<lparr>roles = [''manager''], permissions = [''a:view''], map' = permissionMap [''a:view'']\<rparr>
        \<lparr>roles_req = None, permissions_req = Some [''a:view'', ''a:edit'']\<rparr> True
   \<and> checkAccess \<lparr>roles = [''manager''], permissions = [''a:view''], map' = permissionMap [''a:view'']\<rparr>
        \<lparr>roles_req = None, permissions_req = Some [''a:view'', ''a:edit'']\<rparr> False
   \<and> checkAccess \<lparr>roles = [''manager''], permissions = [''a:view''], map' = permissionMap [''a:view'']\<rparr>
        \<lparr>roles_req = Some [''admin'', ''manager''], permissions_req = None\<rparr> True"
  using roles_any_permissions_requireAll
    [of "[''admin'', ''manager'']" "[''a:view'', ''a:edit'']"
      "\<lparr>roles_req = Some [''admin'', ''manager''], permissions_req = Some [''a:view'', ''a:edit'']\<rparr>"
      "\<lparr>roles = [''manager''], permissions = [''a:view''], map' = permissionMap [''a:view'']\<rparr>" True]
  by (simp add: checkPermission_def)

section \<open>Properties of the action guard and the dispatcher\<close>

lemma required_in_message: "sublist required (accessDeniedMessage required)"
proof -
  have "accessDeniedMessage required =
      (''[RBAC Shield] Access Denied: Missing permission '' @ [CHR 0x27]) @ required @ [CHR 0x27]"
    by (simp add: accessDeniedMessage_def)
  then show ?thesis
    by (simp only: sublist_appendI)
qed

text \<open>
  C8. The callable returned by \<open>guard\<close>: when the permission matcher rejects, the call
  fails with an error whose message contains the required permission string, and the action
  is not invoked (the outcome is the same for every action and the world is untouched); when
  the matcher accepts, the call is the action's own call on the same arguments, result or
  failure.
\<close>

theorem guard_denies_or_delegates:
  "(\<not> checkPermission held required \<longrightarrow>
      guard held required action args s = (Inl (Error (accessDeniedMessage required)), s)
      \<and> sublist required (accessDeniedMessage required)
      \<and> (\<forall>other. guard held required other args s = guard held required action args s))
   \<and> (checkPermission held required \<longrightarrow>
        guard held required action args s = action args s)"
  by (simp add: guard_def required_in_message)

theorem guard_denies_or_delegates_witness:
  "checkPermission [''a:delete''] ''a:delete''
   \<and> guard [''a:delete''] ''a:delete'' (\<lambda>n calls. (Inr (n + 1), Suc calls)) (41::nat) (0::nat)
       = (Inr 42 :: unit thrown + nat, 1)
   \<and> guard [''a:delete''] ''a:delete'' (\<lambda>n calls. (Inl (Thrown ()), Suc calls)) (41::nat) (0::nat)
       = (Inl (Thrown ()) :: unit thrown + nat, 1)
   \<and> \<not> checkPermission [''a:view''] ''a:delete''
   \<and> guard [''a:view''] ''a:delete'' (\<lambda>n calls. (Inr (n + 1), Suc calls)) (41::nat) (0::nat)
       = (Inl (Error (''[RBAC Shield] Access Denied: Missing permission '' @ [CHR 0x27] @ ''a:delete'' @ [CHR 0x27])) :: unit thrown + nat, 0)"
proof -
  have yes: "checkPermission [''a:delete''] ''a:delete''"
    by (simp add: checkPermission_def)
  have no: "\<not> checkPermission [''a:view''] ''a:delete''"
    by (simp add: checkPermission_def)
  show ?thesis
    using yes no
      guard_denies_or_delegates [of "[''a:delete'']" "''a:delete''"
        "\<lambda>n calls. (Inr (n + 1) :: unit thrown + nat, Suc calls)" "41::nat" "0::nat"]
      guard_denies_or_delegates [of "[''a:delete'']" "''a:delete''"
        "\<lambda>n calls. (Inl (Thrown ()) :: unit thrown + nat, Suc calls)" "41::nat" "0::nat"]
      guard_denies_or_delegates [of "[''a:view'']" "''a:delete''"
        "\<lambda>n calls. (Inr (n + 1) :: unit thrown + nat, Suc calls)" "41::nat" "0::nat"]
    by (simp add: accessDeniedMessage_def)
qed








section \<open>Properties of the tenant store\<close>

lemma processTenants_empty:
  "processTenants (Strings []) = Inr [''default'' \<mapsto> tenantRecord None []]"
  "processTenants (Tenants []) = Inr [''default'' \<mapsto> tenantRecord None []]"
  by (simp_all add: processTenants_def)

text \<open>
  C4 (as amended). An empty array is treated as the flat list of strings: the normalised
  result has exactly one tenant, \<open>default\<close>, with no roles and no permissions, and that
  is the tenants mapping after such a load.
\<close>

theorem empty_input_default_tenant:
  "processTenants (Tenants []) = processTenants (Strings [])
   \<and> processTenants (Strings []) = Inr [''default'' \<mapsto> tenantRecord None []]
   \<and> tenants (fst (setAuth debug state (Strings []) prev)) = [''default'' \<mapsto> tenantRecord None []]
   \<and> dom (tenants (fst (setAuth debug state (Strings []) prev))) = {''default''}
   \<and> roles (tenantRecord None []) = [] \<and> permissions (tenantRecord None []) = []"
  by (simp add: processTenants_empty setAuth_def Let_def tenantRecord_def)

theorem empty_input_default_tenant_witness:
  "dom (tenants (fst (setAuth False emptyState (Strings []) emptyState))) = {''default''}"
  using empty_input_default_tenant [of False emptyState emptyState] by simp

text \<open>
  C4 (as stated) fails: after loading the empty array the tenants mapping is not empty.
\<close>

theorem empty_input_zero_tenants_counterexample:
  "dom (tenants (fst (setAuth False emptyState (Strings []) emptyState))) \<noteq> {}
   \<and> tenants (fst (setAuth False emptyState (Strings []) emptyState)) ''default'' \<noteq> None
   \<and> tenants (fst (setAuth False emptyState (Tenants []) emptyState)) ''default'' \<noteq> None"
proof -
  have s: "tenants (fst (setAuth False emptyState (Strings []) emptyState)) ''default'' \<noteq> None"
    by (simp add: setAuth_def processTenants_def Let_def)
  have t: "tenants (fst (setAuth False emptyState (Tenants []) emptyState)) ''default'' \<noteq> None"
    by (simp add: setAuth_def processTenants_def Let_def)
  from s have "''default'' \<in> dom (tenants (fst (setAuth False emptyState (Strings []) emptyState)))"
    by (simp add: dom_def)
  with s t show ?thesis by blast
qed

lemma setAuth_activeTenantId:
  "processTenants authInput = Inr ts \<Longrightarrow>
     activeTenantId (fst (setAuth debug state authInput prev)) =
       (if ts ''default'' \<noteq> None \<and> \<not> truthy (activeTenantId state) then Some ''default''
        else activeTenantId prev)"
  by (simp add: setAuth_def Let_def)

text \<open>
  C5 does not hold of the code. \<open>setAuth\<close> decides the automatic switch from the state
  of the render that created the callback, not from the state at the time of the call. In
  a provider mounted without initial data, a load of a flat list after
  \<open>switchTenant("t1")\<close> replaces the active tenant \<open>t1\<close> by \<open>default\<close>; in a
  provider hydrated with a flat list, a load of a flat list after \<open>reset()\<close> leaves no
  tenant active, and the query for a held permission is false.
\<close>

theorem setAuth_reads_stale_state:
  "activeTenantId (provider_run False emptyState [SwitchTenant ''t1'']) = Some ''t1''
   \<and> activeTenantId
        (provider_run False emptyState [SwitchTenant ''t1'', SetAuth (Strings [''x:view''])])
      = Some ''default''
   \<and> initialState (Some (Strings [''a:view''])) =
        Inr \<lparr>activeTenantId = Some ''default'',
               tenants = [''default'' \<mapsto> tenantRecord None [''a:view'']],
               isLoading = False\<rparr>
   \<and> activeTenantId
        (provider_run False
           \<lparr>activeTenantId = Some ''default'',
               tenants = [''default'' \<mapsto> tenantRecord None [''a:view'']],
               isLoading = False\<rparr>
           [Reset]) = None
   \<and> activeTenantId
        (provider_run False
           \<lparr>activeTenantId = Some ''default'',
               tenants = [''default'' \<mapsto> tenantRecord None [''a:view'']],
               isLoading = False\<rparr>
           [Reset, SetAuth (Strings [''x:view''])]) = None
   \<and> useHasPermission True
        (provider_run False
           \<lparr>activeTenantId = Some ''default'',
               tenants = [''default'' \<mapsto> tenantRecord None [''a:view'']],
               isLoading = False\<rparr>
           [Reset, SetAuth (Strings [''x:view''])]) ''x:view'' = Inr False"
proof -
  let ?init = "\<lparr>activeTenantId = Some ''default'',
               tenants = [''default'' \<mapsto> tenantRecord None [''a:view'']],
               isLoading = False\<rparr>"
  have a: "activeTenantId (provider_run False emptyState [SwitchTenant ''t1'']) = Some ''t1''"
    by (simp add: provider_run_def switchTenant_def)
  have c: "activeTenantId
        (provider_run False emptyState [SwitchTenant ''t1'', SetAuth (Strings [''x:view''])])
      = Some ''default''"
    by (simp add: provider_run_def switchTenant_def setAuth_def processTenants_def
        emptyState_def truthy_def Let_def)
  have d: "initialState (Some (Strings [''a:view''])) = Inr ?init"
    by (simp add: initialState_def processTenants_def)
  have e: "activeTenantId (provider_run False ?init [Reset]) = None"
    by (simp add: provider_run_def reset_def emptyState_def)
  have f: "activeTenantId (provider_run False ?init [Reset, SetAuth (Strings [''x:view''])]) = None"
    by (simp add: provider_run_def reset_def setAuth_def processTenants_def
        emptyState_def truthy_def Let_def)
  have g: "useHasPermission True
               (provider_run False ?init [Reset, SetAuth (Strings [''x:view''])]) ''x:view''
             = Inr False"
    using f by (simp add: useHasPermission_def activeTenant_def)
  from a c d e f g show ?thesis by blast
qed

theorem setAuth_reads_stale_state_witness:
  "\<not> isLoading
        (provider_run False
           \<lparr>activeTenantId = Some ''default'',
               tenants = [''default'' \<mapsto> tenantRecord None [''a:view'']],
               isLoading = False\<rparr>
           [Reset, SetAuth (Strings [''x:view''])])
   \<and> tenants
        (provider_run False
           \<lparr>activeTenantId = Some ''default'',
               tenants = [''default'' \<mapsto> tenantRecord None [''a:view'']],
               isLoading = False\<rparr>
           [Reset, SetAuth (Strings [''x:view''])]) ''default''
      = Some (tenantRecord None [''x:view''])
   \<and> checkPermission (permissions (tenantRecord None [''x:view''])) ''x:view''
   \<and> useHasPermission True
        (provider_run False
           \<lparr>activeTenantId = Some ''default'',
               tenants = [''default'' \<mapsto> tenantRecord None [''a:view'']],
               isLoading = False\<rparr>
           [Reset, SetAuth (Strings [''x:view''])]) ''x:view'' = Inr False"
proof -
  let ?st = "provider_run False
           \<lparr>activeTenantId = Some ''default'',
               tenants = [''default'' \<mapsto> tenantRecord None [''a:view'']],
               isLoading = False\<rparr>
           [Reset, SetAuth (Strings [''x:view''])]"
  have l: "\<not> isLoading ?st"
    by (simp add: provider_run_def reset_def setAuth_def processTenants_def Let_def)
  have t: "tenants ?st ''default'' = Some (tenantRecord None [''x:view''])"
    by (simp add: provider_run_def reset_def setAuth_def processTenants_def Let_def)
  have p: "checkPermission (permissions (tenantRecord None [''x:view''])) ''x:view''"
    by (simp add: tenantRecord_def checkPermission_def)
  from l t p setAuth_reads_stale_state show ?thesis by blast
qed

text \<open>
  C7. \<open>setAuth\<close> returns a state for every input (no error escapes it) and the state it
  returns is never loading; when the normalisation fails, the tenants mapping and the active
  tenant are those from before the call, and the error is written to the console.
\<close>

theorem setAuth_never_throws:
  "isLoading (fst (setAuth debug state authInput prev)) = False
   \<and> (\<forall>e. processTenants authInput = Inl e \<longrightarrow>
         setAuth debug state authInput prev =
           (prev\<lparr>isLoading := False\<rparr>, [ConsoleError ''[RBAC Shield] Error setting auth:''])
         \<and> tenants (fst (setAuth debug state authInput prev)) = tenants prev
         \<and> activeTenantId (fst (setAuth debug state authInput prev)) = activeTenantId prev)"
  by (auto simp: setAuth_def Let_def split: sum.splits)

theorem setAuth_never_throws_witness:
  "processTenants NotArray = Inl TypeError
   \<and> processTenants (Tenants [Entry \<lparr>tenantId = ''t1'', roles_in = None, permissions_in = None\<rparr>])
       = Inl TypeError
   \<and> tenants (fst (setAuth False emptyState NotArray
        (fst (setAuth False emptyState (Strings [''x:view'']) emptyState)))) ''default''
       = Some (tenantRecord None [''x:view''])
   \<and> \<not> isLoading (fst (setAuth False emptyState NotArray emptyState))"
proof -
  have h: "processTenants NotArray = Inl TypeError"
    by (simp add: processTenants_def)
  have g: "processTenants (Tenants [Entry \<lparr>tenantId = ''t1'', roles_in = None, permissions_in = None\<rparr>])
       = Inl TypeError"
    by (simp add: processTenants_def)
  have k: "tenants (fst (setAuth False emptyState (Strings [''x:view'']) emptyState)) ''default''
      = Some (tenantRecord None [''x:view''])"
    by (simp add: setAuth_def processTenants_def Let_def)
  show ?thesis
    using h g k
      setAuth_never_throws [of False emptyState NotArray
        "fst (setAuth False emptyState (Strings [''x:view'']) emptyState)"]
      setAuth_never_throws [of False emptyState NotArray emptyState]
    by simp
qed

section \<open>Properties of the reactive queries\<close>

lemma activeTenant_Absent_iff:
  "activeTenant state = Absent \<longleftrightarrow>
     noActiveTenant state \<or>
     (activeTenantAbsent state \<and>
      (\<exists>tid. activeTenantId state = Some tid \<and> tid \<notin> set objectPrototypeNames))"
  by (auto simp: activeTenant_def getProperty_def noActiveTenant_def activeTenantAbsent_def
      truthy_def split: option.splits if_splits)

lemma queries_fail_closed_when_guarded:
  assumes "isLoading state \<or> activeTenant state = Absent"
  shows "useHasRole mounted state role = Inr False"
    and "useHasPermission mounted state permission = Inr False"
    and "useHasAnyPermission mounted state ps = Inr False"
    and "useHasAllPermissions mounted state ps = Inr False"
    and "useAccess mounted state reqs =
           Inr (\<not> nonEmpty (roles_req reqs) \<and> \<not> nonEmpty (permissions_req reqs))"
  using assms
  by (auto simp: useHasRole_def useHasPermission_def useHasAnyPermission_def
      useHasAllPermissions_def useAccess_def)

text \<open>
  C6 does not hold of the code. The guard of every query reads
  \<open>state.tenants[state.activeTenantId]\<close> on a plain object, which also finds what
  \<open>Object.prototype\<close> provides. After \<open>setAuth(["a:view"])\<close> and
  \<open>switchTenant("constructor")\<close> the state is not loading and the active id is no key
  of the tenants, yet the guard is passed and each query throws a \<open>TypeError\<close> instead of
  returning false.
\<close>

theorem queries_throw_on_inherited_id:
  "activeTenantAbsent
     (provider_run False emptyState
           [SetAuth (Strings [''a:view'']), SwitchTenant ''constructor''])
   \<and> useHasRole True
       (provider_run False emptyState
           [SetAuth (Strings [''a:view'']), SwitchTenant ''constructor'']) ''admin'' = Inl TypeError
   \<and> useHasPermission True
       (provider_run False emptyState
           [SetAuth (Strings [''a:view'']), SwitchTenant ''constructor'']) ''a:view'' = Inl TypeError
   \<and> useHasAnyPermission True
       (provider_run False emptyState
           [SetAuth (Strings [''a:view'']), SwitchTenant ''constructor'']) [''a:view''] = Inl TypeError
   \<and> useHasAllPermissions True
       (provider_run False emptyState
           [SetAuth (Strings [''a:view'']), SwitchTenant ''constructor'']) [''a:view''] = Inl TypeError
   \<and> useAccess True
       (provider_run False emptyState
           [SetAuth (Strings [''a:view'']), SwitchTenant ''constructor''])
       \<lparr>roles_req = Some [''admin''], permissions_req = None\<rparr> = Inl TypeError"
proof -
  let ?st = "(provider_run False emptyState
           [SetAuth (Strings [''a:view'']), SwitchTenant ''constructor''])"
  have l: "\<not> isLoading ?st"
    by (simp add: provider_run_def setAuth_def switchTenant_def processTenants_def Let_def)
  have a: "activeTenantAbsent ?st"
    by (simp add: activeTenantAbsent_def provider_run_def setAuth_def switchTenant_def
        processTenants_def Let_def)
  have t: "activeTenant ?st = Inherited"
    by (simp add: activeTenant_def getProperty_def objectPrototypeNames_def provider_run_def
        setAuth_def switchTenant_def processTenants_def Let_def)
  have r: "useHasRole True ?st ''admin'' = Inl TypeError"
    using l t by (simp add: useHasRole_def checkAccessForeign_def nonEmpty_def)
  have p: "useHasPermission True ?st ''a:view'' = Inl TypeError"
    using l t by (simp add: useHasPermission_def checkAccessForeign_def nonEmpty_def)
  have y: "useHasAnyPermission True ?st [''a:view''] = Inl TypeError"
    using l t by (simp add: useHasAnyPermission_def)
  have z: "useHasAllPermissions True ?st [''a:view''] = Inl TypeError"
    using l t by (simp add: useHasAllPermissions_def)
  have u: "useAccess True ?st \<lparr>roles_req = Some [''admin''], permissions_req = None\<rparr>
      = Inl TypeError"
    using l t by (simp add: useAccess_def checkAccessForeign_def nonEmpty_def)
  from a r p y z u show ?thesis by blast
qed

theorem queries_throw_on_inherited_id_witness:
  "\<not> isLoading
       (provider_run False emptyState
           [SetAuth (Strings [''a:view'']), SwitchTenant ''constructor''])
   \<and> activeTenantId
       (provider_run False emptyState
           [SetAuth (Strings [''a:view'']), SwitchTenant ''constructor'']) = Some ''constructor''
   \<and> tenants
       (provider_run False emptyState
           [SetAuth (Strings [''a:view'']), SwitchTenant ''constructor'']) ''constructor'' = None
   \<and> useHasPermission True
       (provider_run False emptyState
           [SetAuth (Strings [''a:view'']), SwitchTenant ''constructor'']) ''a:view'' \<noteq> Inr False"
proof -
  let ?st = "(provider_run False emptyState
           [SetAuth (Strings [''a:view'']), SwitchTenant ''constructor''])"
  have l: "\<not> isLoading ?st"
    by (simp add: provider_run_def setAuth_def switchTenant_def processTenants_def Let_def)
  have i: "activeTenantId ?st = Some ''constructor''"
    by (simp add: provider_run_def setAuth_def switchTenant_def processTenants_def Let_def)
  have n: "tenants ?st ''constructor'' = None"
    by (simp add: provider_run_def setAuth_def switchTenant_def processTenants_def Let_def)
  have "useHasPermission True ?st ''a:view'' = Inl TypeError"
    using queries_throw_on_inherited_id by blast
  then have "useHasPermission True ?st ''a:view'' \<noteq> Inr False"
    by simp
  with l i n show ?thesis by blast
qed

lemma permissionMap_foldl:
  "foldl (\<lambda>pMap p. pMap(p \<mapsto> True)) m ps q =
     (if q \<in> set ps then Some True else m q)"
  by (induction ps arbitrary: m) auto

lemma permissionMap_member: "permissionMap ps q = Some True \<longleftrightarrow> q \<in> set ps"
  by (simp add: permissionMap_def permissionMap_foldl)

lemma permissionMap_entry:
  "truthyEntry (getProperty (permissionMap ps) q) \<longleftrightarrow>
     q \<in> set ps \<or> q \<in> set objectPrototypeNames"
  by (simp add: truthyEntry_def getProperty_def permissionMap_def permissionMap_foldl)

lemma permission_string_not_inherited:
  "CHR '':'' \<in> set p \<or> p = ''*'' \<Longrightarrow> p \<notin> set objectPrototypeNames"
  by (auto simp: objectPrototypeNames_def)

lemma reduce_tenants_lookup:
  "reduce_tenants acc es = Inr ts \<Longrightarrow>
   (\<And>k r. acc k = Some r \<Longrightarrow> map' r = permissionMap (permissions r)) \<Longrightarrow>
   ts tid = Some t \<Longrightarrow> map' t = permissionMap (permissions t)"
proof (induction acc es rule: reduce_tenants.induct)
  case (1 acc)
  then show ?case by simp
next
  case (2 acc rest)
  then show ?case by simp
next
  case (3 acc entry rest)
  from "3.prems"(1) obtain ps where ps: "permissions_in entry = Some ps"
    by (cases "permissions_in entry") auto
  let ?acc = "acc(tenantId entry \<mapsto> tenantRecord (roles_in entry) ps)"
  have run: "reduce_tenants ?acc rest = Inr ts"
    using "3.prems"(1) ps by simp
  have inv: "\<And>k r. ?acc k = Some r \<Longrightarrow> map' r = permissionMap (permissions r)"
    using "3.prems"(2) by (auto simp: tenantRecord_def split: if_splits)
  show ?case
    using "3.IH" [OF ps run inv "3.prems"(3)] .
qed

lemma processTenants_lookup:
  assumes "processTenants authInput = Inr ts" and "ts tid = Some t"
  shows "map' t = permissionMap (permissions t)"
proof -
  have "\<exists>es. reduce_tenants Map.empty es = Inr ts"
    using assms(1)
    by (auto simp: processTenants_def simp del: reduce_tenants.simps
        split: auth_input.splits if_splits)
  then obtain es where run: "reduce_tenants Map.empty es = Inr ts" ..
  show ?thesis
    using reduce_tenants_lookup [OF run _ assms(2)] by simp
qed

lemma activeTenant_record:
  "activeTenant state = Own t \<Longrightarrow> \<exists>tid. tenants state tid = Some t"
  by (auto simp: activeTenant_def getProperty_def split: option.splits if_splits)

text \<open>
  What the bulk checks compute on a loaded state: a listed permission counts when it is
  held or when it is a name that the lookup object inherits.
\<close>

lemma bulk_checks_lookup:
  assumes "processTenants authInput = Inr (tenants state)"
    and "\<not> isLoading state" and "activeTenant state = Own t"
  shows "useHasAnyPermission True state ps =
           Inr (''*'' \<in> set (permissions t) \<or>
                (\<exists>p\<in>set ps. p \<in> set (permissions t) \<or> p \<in> set objectPrototypeNames))"
    and "useHasAllPermissions True state ps =
           Inr (''*'' \<in> set (permissions t) \<or>
                (\<forall>p\<in>set ps. p \<in> set (permissions t) \<or> p \<in> set objectPrototypeNames))"
    and "useHasPermission True state p = Inr (checkPermission (permissions t) p)"
proof -
  from assms(3) obtain tid where "tenants state tid = Some t"
    using activeTenant_record by blast
  with assms(1) have m: "map' t = permissionMap (permissions t)"
    by (rule processTenants_lookup)
  have star: "''*'' \<notin> set objectPrototypeNames"
    by (simp add: permission_string_not_inherited)
  show "useHasAnyPermission True state ps =
           Inr (''*'' \<in> set (permissions t) \<or>
                (\<exists>p\<in>set ps. p \<in> set (permissions t) \<or> p \<in> set objectPrototypeNames))"
    using assms(2,3) star
    by (simp add: useHasAnyPermission_def m permissionMap_entry list_ex_iff)
  show "useHasAllPermissions True state ps =
           Inr (''*'' \<in> set (permissions t) \<or>
                (\<forall>p\<in>set ps. p \<in> set (permissions t) \<or> p \<in> set objectPrototypeNames))"
    using assms(2,3) star
    by (simp add: useHasAllPermissions_def m permissionMap_entry list_all_iff)
  show "useHasPermission True state p = Inr (checkPermission (permissions t) p)"
    using assms(2,3)
    by (auto simp: useHasPermission_def checkAccess_def permMatch_def nonEmpty_def
        checkPermission_def)
qed

text \<open>
  C10 (as amended). For a mounted hook and a state that is not loading, whose tenants were
  normalised from some input and whose active tenant has a record: when no listed
  permission is a property name inherited from \<open>Object.prototype\<close> (no string of the
  declared permission form, which contains \<open>:\<close> or is \<open>*\<close>, is one),
  \<open>useHasAnyPermission\<close> and \<open>useHasAllPermissions\<close> decide each listed permission by
  membership in the held list and honour only the wildcard \<open>*\<close>, while
  \<open>useHasPermission\<close> is the permission matcher. For a tenant holding exactly
  \<open>billing:*\<close>: \<open>useHasPermission("billing:view")\<close> is true, both bulk checks of
  \<open>["billing:view"]\<close> are false, \<open>useHasAllPermissions([])\<close> is true and
  \<open>useHasAnyPermission([])\<close> is false.
\<close>

theorem bulk_checks_ignore_resource_wildcard:
  "processTenants authInput = Inr (tenants state) \<and> \<not> isLoading state
     \<and> activeTenant state = Own t \<longrightarrow>
     ((\<forall>p\<in>set ps. p \<notin> set objectPrototypeNames) \<longrightarrow>
        useHasAnyPermission True state ps =
          Inr (''*'' \<in> set (permissions t) \<or> (\<exists>p\<in>set ps. p \<in> set (permissions t)))
        \<and> useHasAllPermissions True state ps =
            Inr (''*'' \<in> set (permissions t) \<or> (\<forall>p\<in>set ps. p \<in> set (permissions t))))
     \<and> ((\<forall>p\<in>set ps. CHR '':'' \<in> set p \<or> p = ''*'') \<longrightarrow>
          (\<forall>p\<in>set ps. p \<notin> set objectPrototypeNames))
     \<and> useHasPermission True state p = Inr (checkPermission (permissions t) p)
     \<and> (permissions t = [''billing:*''] \<longrightarrow>
          useHasPermission True state ''billing:view'' = Inr True
          \<and> useHasAnyPermission True state [''billing:view''] = Inr False
          \<and> useHasAllPermissions True state [''billing:view''] = Inr False
          \<and> useHasAllPermissions True state [] = Inr True
          \<and> useHasAnyPermission True state [] = Inr False)"
proof (intro impI, elim conjE)
  assume a: "processTenants authInput = Inr (tenants state)" "\<not> isLoading state"
    "activeTenant state = Own t"
  note b = bulk_checks_lookup [OF a]
  have general: "(\<forall>p\<in>set ps. p \<notin> set objectPrototypeNames) \<longrightarrow>
        useHasAnyPermission True state ps =
          Inr (''*'' \<in> set (permissions t) \<or> (\<exists>p\<in>set ps. p \<in> set (permissions t)))
        \<and> useHasAllPermissions True state ps =
            Inr (''*'' \<in> set (permissions t) \<or> (\<forall>p\<in>set ps. p \<in> set (permissions t)))"
    by (auto simp: b)
  have typed: "(\<forall>p\<in>set ps. CHR '':'' \<in> set p \<or> p = ''*'') \<longrightarrow>
          (\<forall>p\<in>set ps. p \<notin> set objectPrototypeNames)"
    using permission_string_not_inherited by blast
  have "''billing:view'' \<notin> set objectPrototypeNames"
    by (simp add: permission_string_not_inherited)
  then have billing: "permissions t = [''billing:*''] \<longrightarrow>
          useHasPermission True state ''billing:view'' = Inr True
          \<and> useHasAnyPermission True state [''billing:view''] = Inr False
          \<and> useHasAllPermissions True state [''billing:view''] = Inr False
          \<and> useHasAllPermissions True state [] = Inr True
          \<and> useHasAnyPermission True state [] = Inr False"
    by (simp add: b checkPermission_def)
  from general typed b(3) billing show
    "((\<forall>p\<in>set ps. p \<notin> set objectPrototypeNames) \<longrightarrow>
        useHasAnyPermission True state ps =
          Inr (''*'' \<in> set (permissions t) \<or> (\<exists>p\<in>set ps. p \<in> set (permissions t)))
        \<and> useHasAllPermissions True state ps =
            Inr (''*'' \<in> set (permissions t) \<or> (\<forall>p\<in>set ps. p \<in> set (permissions t))))
     \<and> ((\<forall>p\<in>set ps. CHR '':'' \<in> set p \<or> p = ''*'') \<longrightarrow>
          (\<forall>p\<in>set ps. p \<notin> set objectPrototypeNames))
     \<and> useHasPermission True state p = Inr (checkPermission (permissions t) p)
     \<and> (permissions t = [''billing:*''] \<longrightarrow>
          useHasPermission True state ''billing:view'' = Inr True
          \<and> useHasAnyPermission True state [''billing:view''] = Inr False
          \<and> useHasAllPermissions True state [''billing:view''] = Inr False
          \<and> useHasAllPermissions True state [] = Inr True
          \<and> useHasAnyPermission True state [] = Inr False)"
    by blast
qed

theorem bulk_checks_ignore_resource_wildcard_witness:
  "processTenants (Tenants [Entry \<lparr>tenantId = ''acme'', roles_in = None,
                                  permissions_in = Some [''billing:*'']\<rparr>])
     = Inr (tenants (provider_run False emptyState
        [SetAuth (Tenants [Entry \<lparr>tenantId = ''acme'', roles_in = None,
                                  permissions_in = Some [''billing:*'']\<rparr>]),
         SwitchTenant ''acme'']))
   \<and> \<not> isLoading (provider_run False emptyState
        [SetAuth (Tenants [Entry \<lparr>tenantId = ''acme'', roles_in = None,
                                  permissions_in = Some [''billing:*'']\<rparr>]),
         SwitchTenant ''acme''])
   \<and> activeTenant (provider_run False emptyState
        [SetAuth (Tenants [Entry \<lparr>tenantId = ''acme'', roles_in = None,
                                  permissions_in = Some [''billing:*'']\<rparr>]),
         SwitchTenant ''acme'']) = Own (tenantRecord None [''billing:*''])
   \<and> useHasPermission True (provider_run False emptyState
        [SetAuth (Tenants [Entry \<lparr>tenantId = ''acme'', roles_in = None,
                                  permissions_in = Some [''billing:*'']\<rparr>]),
         SwitchTenant ''acme'']) ''billing:view'' = Inr True
   \<and> useHasAnyPermission True (provider_run False emptyState
        [SetAuth (Tenants [Entry \<lparr>tenantId = ''acme'', roles_in = None,
                                  permissions_in = Some [''billing:*'']\<rparr>]),
         SwitchTenant ''acme'']) [''billing:view''] = Inr False
   \<and> useHasAllPermissions True (provider_run False emptyState
        [SetAuth (Tenants [Entry \<lparr>tenantId = ''acme'', roles_in = None,
                                  permissions_in = Some [''billing:*'']\<rparr>]),
         SwitchTenant ''acme'']) [''billing:view''] = Inr False
   \<and> useHasAllPermissions True (provider_run False emptyState
        [SetAuth (Tenants [Entry \<lparr>tenantId = ''acme'', roles_in = None,
                                  permissions_in = Some [''billing:*'']\<rparr>]),
         SwitchTenant ''acme'']) [] = Inr True
   \<and> useHasAnyPermission True (provider_run False emptyState
        [SetAuth (Tenants [Entry \<lparr>tenantId = ''acme'', roles_in = None,
                                  permissions_in = Some [''billing:*'']\<rparr>]),
         SwitchTenant ''acme'']) [] = Inr False
   \<and> useHasAnyPermission True (provider_run False emptyState
        [SetAuth (Tenants [Entry \<lparr>tenantId = ''acme'', roles_in = None,
                                  permissions_in = Some [''billing:*'']\<rparr>]),
         SwitchTenant ''acme'']) [''billing:view'', ''billing:*''] = Inr True
   \<and> useHasAllPermissions True (provider_run False emptyState
        [SetAuth (Tenants [Entry \<lparr>tenantId = ''acme'', roles_in = None,
                                  permissions_in = Some [''billing:*'']\<rparr>]),
         SwitchTenant ''acme'']) [''billing:view'', ''billing:*''] = Inr False"
proof -
  let ?input = "Tenants [Entry \<lparr>tenantId = ''acme'', roles_in = None,
                                  permissions_in = Some [''billing:*'']\<rparr>]"
  let ?st = "provider_run False emptyState [SetAuth ?input, SwitchTenant ''acme'']"
  have i: "processTenants ?input = Inr (tenants ?st)"
    by (simp add: provider_run_def setAuth_def switchTenant_def processTenants_def Let_def)
  have l: "\<not> isLoading ?st"
    by (simp add: provider_run_def setAuth_def switchTenant_def processTenants_def Let_def)
  have t: "activeTenant ?st = Own (tenantRecord None [''billing:*''])"
    by (simp add: provider_run_def setAuth_def switchTenant_def processTenants_def Let_def
        activeTenant_def getProperty_def)
  have p: "permissions (tenantRecord None [''billing:*'']) = [''billing:*'']"
    by (simp add: tenantRecord_def)
  have n: "\<forall>p\<in>set [''billing:view'', ''billing:*'']. CHR '':'' \<in> set p \<or> p = ''*''"
    by simp
  show ?thesis
    using i l t p n
      bulk_checks_ignore_resource_wildcard
        [of ?input ?st "tenantRecord None [''billing:*'']"
          "[''billing:view'', ''billing:*'']"]
    by (simp add: checkPermission_def)
qed

text \<open>
  C10 (as stated) fails: the tenant holds exactly \<open>billing:*\<close>, \<open>constructor\<close> is
  neither held nor the wildcard, and still \<open>useHasAnyPermission(["constructor"])\<close> and
  \<open>useHasAllPermissions(["toString", "valueOf"])\<close> are true.
\<close>

theorem bulk_checks_inherited_name_counterexample:
  "permissions (tenantRecord None [''billing:*'']) = [''billing:*'']
   \<and> activeTenant (provider_run False emptyState
        [SetAuth (Tenants [Entry \<lparr>tenantId = ''acme'', roles_in = None,
                                  permissions_in = Some [''billing:*'']\<rparr>]),
         SwitchTenant ''acme'']) = Own (tenantRecord None [''billing:*''])
   \<and> ''constructor'' \<notin> set [''billing:*'']
   \<and> ''*'' \<notin> set [''billing:*'']
   \<and> useHasAnyPermission True (provider_run False emptyState
        [SetAuth (Tenants [Entry \<lparr>tenantId = ''acme'', roles_in = None,
                                  permissions_in = Some [''billing:*'']\<rparr>]),
         SwitchTenant ''acme'']) [''constructor''] = Inr True
   \<and> useHasAllPermissions True (provider_run False emptyState
        [SetAuth (Tenants [Entry \<lparr>tenantId = ''acme'', roles_in = None,
                                  permissions_in = Some [''billing:*'']\<rparr>]),
         SwitchTenant ''acme'']) [''toString'', ''valueOf''] = Inr True"
proof -
  let ?input = "Tenants [Entry \<lparr>tenantId = ''acme'', roles_in = None,
                                  permissions_in = Some [''billing:*'']\<rparr>]"
  let ?st = "provider_run False emptyState [SetAuth ?input, SwitchTenant ''acme'']"
  have i: "processTenants ?input = Inr (tenants ?st)"
    by (simp add: provider_run_def setAuth_def switchTenant_def processTenants_def Let_def)
  have l: "\<not> isLoading ?st"
    by (simp add: provider_run_def setAuth_def switchTenant_def processTenants_def Let_def)
  have t: "activeTenant ?st = Own (tenantRecord None [''billing:*''])"
    by (simp add: provider_run_def setAuth_def switchTenant_def processTenants_def Let_def
        activeTenant_def getProperty_def)
  have p: "permissions (tenantRecord None [''billing:*'']) = [''billing:*'']"
    by (simp add: tenantRecord_def)
  have y: "useHasAnyPermission True ?st [''constructor''] = Inr True"
    by (simp add: bulk_checks_lookup(1) [OF i l t] objectPrototypeNames_def)
  have z: "useHasAllPermissions True ?st [''toString'', ''valueOf''] = Inr True"
    by (simp add: bulk_checks_lookup(2) [OF i l t] objectPrototypeNames_def)
  from t p y z show ?thesis by simp
qed

end
